theory Spec2Isabelle
  imports Complex_Main "HOL-Library.Sublist"
begin

section \<open>Values, effects and the external world\<close>

text \<open>
  The repository holds two variants of the class \<open>SolanaX402Server\<close> in \<open>src/server.ts\<close>:
  the first verifies USDC (SPL token) payments, the second ("Updated for SOL") verifies
  native SOL payments. Both are embedded here; a definition of the first carries the
  suffix \<open>_usdc\<close>, one of the second the suffix \<open>_sol\<close>.

  Conventions of the embedding.
  \<^item> A JavaScript \<open>number\<close> that the caller or the ledger supplies is an exact rational
    (or an integer where the ledger gives one): rounding of IEEE doubles, infinities and a
    caller passing \<open>NaN\<close> are not modelled. \<open>NaN\<close> appears only where the code's own
    expressions produce it from \<open>undefined\<close>, see \<open>jsnum\<close>.
  \<^item> An \<open>async\<close> function yields an \<open>outcome\<close>: the promise resolves (\<open>Returned\<close>) or
    rejects with an \<open>Error\<close> whose message is recorded (\<open>Thrown\<close>).
  \<^item> \<open>Date.now()\<close> is an argument \<open>now\<close> (milliseconds).
  \<^item> A public key is represented by its base58 text.
\<close>

datatype jsnum = NaN | Fin rat

datatype 'a outcome = Returned 'a | Thrown string

datatype commitment = Confirmed | Finalized

text \<open>\<open>a || b\<close> on an optional string: \<open>undefined\<close> and the empty string are falsy.\<close>

fun or_else :: "string option \<Rightarrow> string \<Rightarrow> string" where
  "or_else None d = d"
| "or_else (Some s) d = (if s = [] then d else s)"

text \<open>
  Numeric coercion of a raw token amount. The ledger's parsed format carries a token
  amount as a non-empty decimal string of an unsigned integer (so it is truthy whenever it
  is present, and coerces to its value); an absent field is \<open>undefined\<close> and coerces to
  \<open>NaN\<close>.
\<close>

fun ToNumber :: "nat option \<Rightarrow> jsnum" where
  "ToNumber None = NaN"
| "ToNumber (Some n) = Fin (of_nat n)"

text \<open>\<open>a / b\<close> (only used with a non-zero divisor) and \<open>a < b\<close>: anything with \<open>NaN\<close>
  is \<open>NaN\<close>, respectively false.\<close>

fun js_div :: "jsnum \<Rightarrow> jsnum \<Rightarrow> jsnum" where
  "js_div (Fin a) (Fin b) = Fin (a / b)"
| "js_div _ _ = NaN"

fun js_lt :: "jsnum \<Rightarrow> jsnum \<Rightarrow> bool" where
  "js_lt (Fin a) (Fin b) = (a < b)"
| "js_lt _ _ = False"

subsection \<open>types.ts\<close>

datatype network = Devnet | MainnetBeta

fun network_string :: "network \<Rightarrow> string" where
  "network_string Devnet = ''devnet''"
| "network_string MainnetBeta = ''mainnet-beta''"

record X402ServerConfig =
  network :: network
  recipientAddress :: string
  rpcUrl :: "string option"
  usdcMintAddress :: "string option"

text \<open>The fields of \<open>PaymentOption\<close> carry the prefix \<open>po_\<close>.\<close>

record PaymentOption =
  po_id :: string
  po_scheme :: string
  po_network :: string
  po_recipient :: string
  po_token :: string
  po_amount :: string
  po_decimals :: nat

record PaymentRequirements =
  version :: string
  paymentOptions :: "PaymentOption list"

text \<open>An optional field is an \<open>option\<close>; \<open>from\<close> and \<open>to\<close> are \<open>from_addr\<close> and \<open>to_addr\<close>.\<close>

record PaymentVerification =
  valid :: bool
  signature :: "string option"
  amount :: "jsnum option"
  token :: "string option"
  from_addr :: "string option"
  to_addr :: "string option"
  timestamp :: "int option"
  error :: "string option"

record X402Response =
  statusCode :: nat
  headers :: "(string \<times> string) list"
  body :: PaymentRequirements

subsection \<open>Ledger records (the types of the Solana client library that the code reads)\<close>

record TransactionMeta =
  err :: bool
  preBalances :: "nat list"
  postBalances :: "nat list"

text \<open>
  What both fetches return: \<open>blockTime\<close> (\<open>number | null\<close>) and \<open>meta\<close> (\<open>... | null\<close>);
  \<open>err\<close> records whether \<open>meta.err\<close> is non-null.
\<close>

record TransactionResponse =
  blockTime :: "int option"
  meta :: "TransactionMeta option"

text \<open>
  A parsed instruction's \<open>parsed\<close> payload is untyped: a text (the memo program) or an
  object with \<open>type\<close> and \<open>info\<close>. Of \<open>info\<close> the code reads \<open>source\<close>, \<open>destination\<close>,
  \<open>amount\<close> and \<open>tokenAmount?.amount\<close>.
\<close>

record ParsedInfo =
  info_source :: string
  info_destination :: string
  info_amount :: "nat option"
  info_tokenAmount :: "nat option"

datatype ParsedPayload = ParsedText string | ParsedObject string ParsedInfo

text \<open>
  \<open>PartiallyDecodedInstruction programId\<close> has no \<open>parsed\<close> key;
  \<open>ParsedInstruction program parsed\<close> has one.
\<close>

datatype Instruction =
    PartiallyDecodedInstruction string
  | ParsedInstruction string ParsedPayload

text \<open>\<open>getParsedTransaction\<close>: \<open>instructions\<close> is \<open>tx.transaction.message.instructions\<close>.\<close>

record ParsedTransactionWithMeta = TransactionResponse +
  instructions :: "Instruction list"

text \<open>
  \<open>getTransaction\<close>: \<open>getAccountKeys\<close> is the result of the library call
  \<open>tx.transaction.message.getAccountKeys()\<close>, which may throw, projected to its
  \<open>staticAccountKeys\<close>.
\<close>

record VersionedTransactionResponse = TransactionResponse +
  getAccountKeys :: "string list outcome"

record Connection =
  getParsedTransaction :: "string \<Rightarrow> commitment \<Rightarrow> ParsedTransactionWithMeta option outcome"
  getTransaction :: "string \<Rightarrow> commitment \<Rightarrow> VersionedTransactionResponse option outcome"

text \<open>
  The library and the runtime, as parameters: \<open>newConnection url\<close> is
  \<open>new Connection(url, 'confirmed')\<close>, \<open>PublicKey s\<close> is \<open>new PublicKey(s)\<close> (the key in
  base58, or the constructor throws), \<open>getAssociatedTokenAddress mint owner\<close>, and
  \<open>String_of n\<close> the text of a number in a template literal or from \<open>toString()\<close>.
\<close>

record library =
  newConnection :: "string \<Rightarrow> Connection outcome"
  PublicKey :: "string \<Rightarrow> string outcome"
  getAssociatedTokenAddress :: "string \<Rightarrow> string \<Rightarrow> string outcome"
  String_of :: "jsnum \<Rightarrow> string"

text \<open>The module \<open>./constants\<close> is not part of the sources: its values are parameters.\<close>

record constants =
  SOLANA_DEVNET_RPC :: string
  SOLANA_MAINNET_RPC :: string
  USDC_DEVNET_MINT :: string
  USDC_MAINNET_MINT :: string
  USDC_DECIMALS :: nat
  SOL_DECIMALS :: nat
  X402_VERSION :: string

definition LAMPORTS_PER_SOL :: rat where
  "LAMPORTS_PER_SOL = 1000000000"

section \<open>The servers\<close>

text \<open>The state of the SOL server; the USDC server extends it by two fields.\<close>

record SolanaX402Server =
  connection :: Connection
  config :: X402ServerConfig

record SolanaX402Server_usdc = SolanaX402Server +
  usdcMint :: string
  recipientTokenAccount :: "string option"

definition default_rpc :: "constants \<Rightarrow> X402ServerConfig \<Rightarrow> string" where
  "default_rpc K cfg =
     or_else (rpcUrl cfg)
       (if network cfg = Devnet then SOLANA_DEVNET_RPC K else SOLANA_MAINNET_RPC K)"

definition constructor_usdc ::
  "library \<Rightarrow> constants \<Rightarrow> X402ServerConfig \<Rightarrow> SolanaX402Server_usdc outcome" where
  "constructor_usdc L K cfg =
     (case newConnection L (default_rpc K cfg) of
        Thrown e \<Rightarrow> Thrown e
      | Returned c \<Rightarrow>
          let defaultMint = (if network cfg = Devnet then USDC_DEVNET_MINT K
                             else USDC_MAINNET_MINT K)
          in (case PublicKey L (or_else (usdcMintAddress cfg) defaultMint) of
                Thrown e \<Rightarrow> Thrown e
              | Returned mint \<Rightarrow>
                  Returned \<lparr>connection = c, config = cfg, usdcMint = mint,
                            recipientTokenAccount = None\<rparr>))"

definition constructor_sol ::
  "library \<Rightarrow> constants \<Rightarrow> X402ServerConfig \<Rightarrow> SolanaX402Server outcome" where
  "constructor_sol L K cfg =
     (case newConnection L (default_rpc K cfg) of
        Thrown e \<Rightarrow> Thrown e
      | Returned c \<Rightarrow> Returned \<lparr>connection = c, config = cfg\<rparr>)"

definition initialize_usdc ::
  "library \<Rightarrow> SolanaX402Server_usdc \<Rightarrow> SolanaX402Server_usdc outcome" where
  "initialize_usdc L s =
     (case PublicKey L (recipientAddress (config s)) of
        Thrown e \<Rightarrow> Thrown e
      | Returned recipient \<Rightarrow>
          (case getAssociatedTokenAddress L (usdcMint s) recipient of
             Thrown e \<Rightarrow> Thrown e
           | Returned a \<Rightarrow> Returned (s\<lparr>recipientTokenAccount := Some a\<rparr>)))"

definition initialize_sol :: "library \<Rightarrow> SolanaX402Server \<Rightarrow> unit outcome" where
  "initialize_sol L s =
     (case PublicKey L (recipientAddress (config s)) of
        Thrown e \<Rightarrow> Thrown ''Invalid recipient address''
      | Returned recipient \<Rightarrow> Returned ())"

subsection \<open>Payment requirements and the 402 response\<close>

definition createPaymentRequirements_usdc ::
  "library \<Rightarrow> constants \<Rightarrow> SolanaX402Server_usdc \<Rightarrow> int \<Rightarrow> rat \<Rightarrow> string option
     \<Rightarrow> (PaymentRequirements \<times> SolanaX402Server_usdc) outcome" where
  "createPaymentRequirements_usdc L K s now amnt resourceId =
     (case (if recipientTokenAccount s = None then initialize_usdc L s else Returned s) of
        Thrown e \<Rightarrow> Thrown e
      | Returned s' \<Rightarrow>
          let paymentOption =
                \<lparr>po_id = or_else resourceId (''payment-'' @ String_of L (Fin (of_int now))),
                 po_scheme = ''solana'',
                 po_network = network_string (network (config s')),
                 po_recipient = recipientAddress (config s'),
                 po_token = usdcMint s',
                 po_amount = String_of L (Fin amnt),
                 po_decimals = USDC_DECIMALS K\<rparr>
          in Returned (\<lparr>version = X402_VERSION K, paymentOptions = [paymentOption]\<rparr>, s'))"

definition createPaymentRequirements_sol ::
  "library \<Rightarrow> constants \<Rightarrow> SolanaX402Server \<Rightarrow> int \<Rightarrow> rat \<Rightarrow> string option
     \<Rightarrow> PaymentRequirements outcome" where
  "createPaymentRequirements_sol L K s now amountInSol resourceId =
     (let paymentOption =
            \<lparr>po_id = or_else resourceId (''sol-'' @ String_of L (Fin (of_int now))),
             po_scheme = ''solana'',
             po_network = network_string (network (config s)),
             po_recipient = recipientAddress (config s),
             po_token = ''native'',
             po_amount = String_of L (Fin amountInSol),
             po_decimals = SOL_DECIMALS K\<rparr>
      in Returned \<lparr>version = X402_VERSION K, paymentOptions = [paymentOption]\<rparr>)"

definition response_headers :: "constants \<Rightarrow> (string \<times> string) list" where
  "response_headers K =
     [(''Content-Type'', ''application/json''),
      (''WWW-Authenticate'', ''x402 version='' @ [CHR 0x22] @ X402_VERSION K @ [CHR 0x22])]"

definition create402Response_usdc ::
  "library \<Rightarrow> constants \<Rightarrow> SolanaX402Server_usdc \<Rightarrow> int \<Rightarrow> rat \<Rightarrow> string option
     \<Rightarrow> (X402Response \<times> SolanaX402Server_usdc) outcome" where
  "create402Response_usdc L K s now amnt resourceId =
     (case createPaymentRequirements_usdc L K s now amnt resourceId of
        Thrown e \<Rightarrow> Thrown e
      | Returned (requirements, s') \<Rightarrow>
          Returned (\<lparr>statusCode = 402, headers = response_headers K, body = requirements\<rparr>, s'))"

definition create402Response_sol ::
  "library \<Rightarrow> constants \<Rightarrow> SolanaX402Server \<Rightarrow> int \<Rightarrow> rat \<Rightarrow> string option
     \<Rightarrow> X402Response outcome" where
  "create402Response_sol L K s now amountInSol resourceId =
     (case createPaymentRequirements_sol L K s now amountInSol resourceId of
        Thrown e \<Rightarrow> Thrown e
      | Returned requirements \<Rightarrow>
          Returned \<lparr>statusCode = 402, headers = response_headers K, body = requirements\<rparr>)"

subsection \<open>Verification verdicts\<close>

text \<open>The object literal \<open>{ valid: false, error: msg }\<close>.\<close>

definition invalid :: "string \<Rightarrow> PaymentVerification" where
  "invalid msg =
     \<lparr>valid = False, signature = None, amount = None, token = None, from_addr = None,
      to_addr = None, timestamp = None, error = Some msg\<rparr>"

text \<open>\<open>tx.meta?.err\<close> as a condition.\<close>

definition meta_err :: "'a TransactionResponse_scheme \<Rightarrow> bool" where
  "meta_err tx = (case meta tx of None \<Rightarrow> False | Some m \<Rightarrow> err m)"

text \<open>The default of the parameter \<open>maxAgeSeconds\<close>.\<close>

definition maxAge_default :: "rat option \<Rightarrow> rat" where
  "maxAge_default maxAgeSeconds = (case maxAgeSeconds of None \<Rightarrow> 300 | Some m \<Rightarrow> m)"

subsection \<open>The USDC server: \<open>findTokenTransfer\<close> and \<open>verifyPayment\<close>\<close>

record TransferInfo =
  t_source :: string
  t_destination :: string
  t_amount :: "nat option"

text \<open>
  The loop over the instructions returns at the first parsed instruction whose
  \<open>parsed.type\<close> is \<open>transfer\<close> or \<open>transferChecked\<close>; the amount is
  \<open>parsed.info.amount || parsed.info.tokenAmount?.amount\<close>.
\<close>

fun findTokenTransfer_loop :: "Instruction list \<Rightarrow> TransferInfo option" where
  "findTokenTransfer_loop [] = None"
| "findTokenTransfer_loop (PartiallyDecodedInstruction programId # rest) =
     findTokenTransfer_loop rest"
| "findTokenTransfer_loop (ParsedInstruction program (ParsedText memo) # rest) =
     findTokenTransfer_loop rest"
| "findTokenTransfer_loop (ParsedInstruction program (ParsedObject type info) # rest) =
     (if type = ''transfer'' \<or> type = ''transferChecked''
      then Some \<lparr>t_source = info_source info,
                 t_destination = info_destination info,
                 t_amount = (case info_amount info of
                               Some a \<Rightarrow> Some a
                             | None \<Rightarrow> info_tokenAmount info)\<rparr>
      else findTokenTransfer_loop rest)"

definition findTokenTransfer :: "ParsedTransactionWithMeta \<Rightarrow> TransferInfo option" where
  "findTokenTransfer tx = findTokenTransfer_loop (instructions tx)"

text \<open>What the loop's test and result are for a single instruction.\<close>

fun transfer_of :: "Instruction \<Rightarrow> TransferInfo option" where
  "transfer_of (ParsedInstruction program (ParsedObject type info)) =
     (if type = ''transfer'' \<or> type = ''transferChecked''
      then Some \<lparr>t_source = info_source info,
                 t_destination = info_destination info,
                 t_amount = (case info_amount info of
                               Some a \<Rightarrow> Some a
                             | None \<Rightarrow> info_tokenAmount info)\<rparr>
      else None)"
| "transfer_of _ = None"

definition too_old_usdc :: "library \<Rightarrow> rat \<Rightarrow> rat \<Rightarrow> string" where
  "too_old_usdc L age maxAgeSeconds =
     ''Transaction too old ('' @ String_of L (Fin (of_int \<lfloor>age\<rfloor>)) @ ''s > ''
       @ String_of L (Fin maxAgeSeconds) @ ''s)''"

definition insufficient_usdc :: "library \<Rightarrow> jsnum \<Rightarrow> rat \<Rightarrow> string" where
  "insufficient_usdc L actualAmount expectedAmount =
     ''Insufficient payment amount: '' @ String_of L actualAmount @ '' < ''
       @ String_of L (Fin expectedAmount)"

text \<open>The body of the \<open>try\<close> block.\<close>

definition verifyPayment_try_usdc ::
  "library \<Rightarrow> constants \<Rightarrow> SolanaX402Server_usdc \<Rightarrow> int \<Rightarrow> string \<Rightarrow> rat \<Rightarrow> rat option
     \<Rightarrow> PaymentVerification outcome" where
  "verifyPayment_try_usdc L K s now sig expectedAmount maxAgeSeconds =
     (case getParsedTransaction (connection s) sig Confirmed of
        Thrown e \<Rightarrow> Thrown e
      | Returned None \<Rightarrow> Returned (invalid ''Transaction not found'')
      | Returned (Some tx) \<Rightarrow>
          if meta_err tx then Returned (invalid ''Transaction failed'')
          else
            let txTime = blockTime tx;
                age = of_int now / 1000 - of_int (case txTime of None \<Rightarrow> 0 | Some t \<Rightarrow> t)
            in
            if txTime \<noteq> None \<and> txTime \<noteq> Some 0 \<and> age > maxAge_default maxAgeSeconds
            then Returned (invalid (too_old_usdc L age (maxAge_default maxAgeSeconds)))
            else
              (case findTokenTransfer tx of
                 None \<Rightarrow> Returned (invalid ''No token transfer found in transaction'')
               | Some transferInfo \<Rightarrow>
                   if Some (t_destination transferInfo) \<noteq> recipientTokenAccount s
                   then Returned (invalid ''Payment sent to wrong address'')
                   else
                     let actualAmount =
                           js_div (ToNumber (t_amount transferInfo))
                             (Fin (10 ^ USDC_DECIMALS K));
                         expectedAmountInSmallestUnit =
                           Fin (expectedAmount * 10 ^ USDC_DECIMALS K)
                     in
                     if js_lt (ToNumber (t_amount transferInfo)) expectedAmountInSmallestUnit
                     then Returned (invalid (insufficient_usdc L actualAmount expectedAmount))
                     else Returned
                            \<lparr>valid = True, signature = Some sig, amount = Some actualAmount,
                             token = Some ''USDC'', from_addr = Some (t_source transferInfo),
                             to_addr = Some (t_destination transferInfo),
                             timestamp = (if txTime = Some 0 then None else txTime),
                             error = None\<rparr>))"

text \<open>The \<open>catch\<close> clause: \<open>error.message || 'Unknown error during verification'\<close>.\<close>

definition verifyPayment_usdc ::
  "library \<Rightarrow> constants \<Rightarrow> SolanaX402Server_usdc \<Rightarrow> int \<Rightarrow> string \<Rightarrow> rat \<Rightarrow> rat option
     \<Rightarrow> PaymentVerification outcome" where
  "verifyPayment_usdc L K s now sig expectedAmount maxAgeSeconds =
     (case verifyPayment_try_usdc L K s now sig expectedAmount maxAgeSeconds of
        Thrown e \<Rightarrow>
          Returned (invalid (if e = [] then ''Unknown error during verification'' else e))
      | Returned v \<Rightarrow> Returned v)"

subsection \<open>The SOL server: \<open>verifyPayment\<close>\<close>

text \<open>\<open>Array.prototype.findIndex\<close>: the first index whose element satisfies \<open>P\<close>, or \<open>-1\<close>.\<close>

fun findIndex :: "('a \<Rightarrow> bool) \<Rightarrow> 'a list \<Rightarrow> int" where
  "findIndex P [] = - 1"
| "findIndex P (x # xs) =
     (if P x then 0 else (let r = findIndex P xs in if r = - 1 then - 1 else r + 1))"

text \<open>\<open>balances[i] || 0\<close>: an index outside the array reads \<open>undefined\<close>.\<close>

definition balance_at :: "nat list \<Rightarrow> int \<Rightarrow> int" where
  "balance_at balances i =
     (if 0 \<le> i \<and> nat i < length balances then int (balances ! nat i) else 0)"

text \<open>
  Lines 413 to 416: the balance change of the account at \<open>recipientIndex\<close>, in SOL;
  \<open>tx.meta?.preBalances[recipientIndex] || 0\<close> is \<open>0\<close> when \<open>meta\<close> is null.
\<close>

definition receivedSol :: "VersionedTransactionResponse \<Rightarrow> int \<Rightarrow> rat" where
  "receivedSol tx recipientIndex =
     (let preBalance = (case meta tx of None \<Rightarrow> 0
                        | Some m \<Rightarrow> balance_at (preBalances m) recipientIndex);
          postBalance = (case meta tx of None \<Rightarrow> 0
                         | Some m \<Rightarrow> balance_at (postBalances m) recipientIndex);
          receivedLamports = postBalance - preBalance
      in of_int receivedLamports / LAMPORTS_PER_SOL)"

definition tolerance :: rat where
  "tolerance = 1 / 10000"

definition too_old_sol :: "library \<Rightarrow> int \<Rightarrow> rat \<Rightarrow> string" where
  "too_old_sol L age maxAgeSeconds =
     ''Transaction too old: '' @ String_of L (Fin (of_int age)) @ ''s (max ''
       @ String_of L (Fin maxAgeSeconds) @ ''s)''"

definition amount_mismatch_sol :: "library \<Rightarrow> rat \<Rightarrow> rat \<Rightarrow> string" where
  "amount_mismatch_sol L expectedAmountSol received =
     ''Amount mismatch: expected '' @ String_of L (Fin expectedAmountSol) @ '' SOL, got ''
       @ String_of L (Fin received) @ '' SOL''"

definition verifyPayment_try_sol ::
  "library \<Rightarrow> SolanaX402Server \<Rightarrow> int \<Rightarrow> string \<Rightarrow> rat \<Rightarrow> rat option
     \<Rightarrow> PaymentVerification outcome" where
  "verifyPayment_try_sol L s now sig expectedAmountSol maxAgeSeconds =
     (case getTransaction (connection s) sig Confirmed of
        Thrown e \<Rightarrow> Thrown e
      | Returned None \<Rightarrow> Returned (invalid ''Transaction not found'')
      | Returned (Some tx) \<Rightarrow>
          let now_s = now div 1000;
              txTime = (case blockTime tx of None \<Rightarrow> 0 | Some t \<Rightarrow> t);
              age = now_s - txTime
          in
          if of_int age > maxAge_default maxAgeSeconds
          then Returned (invalid (too_old_sol L age (maxAge_default maxAgeSeconds)))
          else if meta_err tx then Returned (invalid ''Transaction failed'')
          else
            (case PublicKey L (recipientAddress (config s)) of
               Thrown e \<Rightarrow> Thrown e
             | Returned recipientPubkey \<Rightarrow>
                 (case getAccountKeys tx of
                    Thrown e \<Rightarrow> Thrown e
                  | Returned staticAccountKeys \<Rightarrow>
                      let recipientIndex =
                            findIndex (\<lambda>key. key = recipientPubkey) staticAccountKeys
                      in
                      if recipientIndex = - 1
                      then Returned (invalid ''Recipient not found in transaction'')
                      else
                        let received = receivedSol tx recipientIndex in
                        if \<bar>received - expectedAmountSol\<bar> > tolerance
                        then Returned
                               (invalid (amount_mismatch_sol L expectedAmountSol received))
                        else
                          (case staticAccountKeys of
                             [] \<Rightarrow> Thrown ''TypeError''
                           | senderPubkey # _ \<Rightarrow>
                               Returned
                                 \<lparr>valid = True, signature = Some sig,
                                  amount = Some (Fin received), token = Some ''SOL'',
                                  from_addr = Some senderPubkey,
                                  to_addr = Some (recipientAddress (config s)),
                                  timestamp = Some txTime, error = None\<rparr>))))"

definition verifyPayment_sol ::
  "library \<Rightarrow> SolanaX402Server \<Rightarrow> int \<Rightarrow> string \<Rightarrow> rat \<Rightarrow> rat option
     \<Rightarrow> PaymentVerification outcome" where
  "verifyPayment_sol L s now sig expectedAmountSol maxAgeSeconds =
     (case verifyPayment_try_sol L s now sig expectedAmountSol maxAgeSeconds of
        Thrown e \<Rightarrow> Returned (invalid (''Verification failed: '' @ e))
      | Returned v \<Rightarrow> Returned v)"

subsection \<open>\<open>isSignatureUsed\<close> (the same text in both servers)\<close>

definition isSignatureUsed :: "'a SolanaX402Server_scheme \<Rightarrow> string \<Rightarrow> bool outcome" where
  "isSignatureUsed s sig =
     (case getTransaction (connection s) sig Confirmed of
        Thrown e \<Rightarrow> Thrown e
      | Returned tx \<Rightarrow> Returned (tx \<noteq> None))"

section \<open>The replay guard of the specification\<close>

text \<open>
  Modelled from the spec: the \<open>ReplayGuard\<close> of section 4.4, which the sources do not
  contain. Its state is the set of consumed signatures; \<open>markConsumed\<close> records a signature
  as spent and returns whether it was newly recorded.
\<close>

definition markConsumed :: "string \<Rightarrow> string set \<Rightarrow> bool \<times> string set" where
  "markConsumed sig consumed = (sig \<notin> consumed, insert sig consumed)"

section \<open>Shapes of a verdict\<close>

definition success_fields_present :: "PaymentVerification \<Rightarrow> bool" where
  "success_fields_present v \<longleftrightarrow>
     signature v \<noteq> None \<and> amount v \<noteq> None \<and> token v \<noteq> None \<and> from_addr v \<noteq> None
     \<and> to_addr v \<noteq> None"

definition success_fields_absent :: "PaymentVerification \<Rightarrow> bool" where
  "success_fields_absent v \<longleftrightarrow>
     signature v = None \<and> amount v = None \<and> token v = None \<and> from_addr v = None
     \<and> to_addr v = None \<and> timestamp v = None"

definition rejected_as_too_old :: "PaymentVerification \<Rightarrow> bool" where
  "rejected_as_too_old v \<longleftrightarrow>
     \<not> valid v \<and> (case error v of None \<Rightarrow> False | Some msg \<Rightarrow> prefix ''Transaction too old'' msg)"

section \<open>Age of a record\<close>

text \<open>
  The age that each freshness check computes. The SOL server takes whole seconds and
  reads a missing block time as \<open>0\<close>; the USDC server checks the age only when the block
  time is truthy.
\<close>

definition age_sol :: "int \<Rightarrow> 'a TransactionResponse_scheme \<Rightarrow> int" where
  "age_sol now tx = now div 1000 - (case blockTime tx of None \<Rightarrow> 0 | Some t \<Rightarrow> t)"

definition age_usdc :: "int \<Rightarrow> 'a TransactionResponse_scheme \<Rightarrow> rat" where
  "age_usdc now tx = of_int now / 1000 - of_int (case blockTime tx of None \<Rightarrow> 0 | Some t \<Rightarrow> t)"

definition stale_sol :: "int \<Rightarrow> 'a TransactionResponse_scheme \<Rightarrow> rat option \<Rightarrow> bool" where
  "stale_sol now tx maxAgeSeconds \<longleftrightarrow> of_int (age_sol now tx) > maxAge_default maxAgeSeconds"

definition stale_usdc :: "int \<Rightarrow> 'a TransactionResponse_scheme \<Rightarrow> rat option \<Rightarrow> bool" where
  "stale_usdc now tx maxAgeSeconds \<longleftrightarrow>
     blockTime tx \<noteq> None \<and> blockTime tx \<noteq> Some 0
     \<and> age_usdc now tx > maxAge_default maxAgeSeconds"

section \<open>Concrete inputs\<close>

text \<open>
  A library whose key constructor accepts every text, whose derived token account of an
  owner is the owner's text with \<open>ata:\<close> in front, and which prints every number as \<open>n\<close>;
  constants with six USDC decimals.
\<close>

definition ex_constants :: constants where
  "ex_constants =
     \<lparr>SOLANA_DEVNET_RPC = ''https://devnet'', SOLANA_MAINNET_RPC = ''https://mainnet'',
      USDC_DEVNET_MINT = ''MintDev'', USDC_MAINNET_MINT = ''MintMain'',
      USDC_DECIMALS = 6, SOL_DECIMALS = 9, X402_VERSION = ''1.0''\<rparr>"

definition ex_config :: X402ServerConfig where
  "ex_config =
     \<lparr>network = Devnet, recipientAddress = ''Rcpt'', rpcUrl = None, usdcMintAddress = None\<rparr>"

definition ex_token_transfer :: "string \<Rightarrow> nat \<Rightarrow> Instruction" where
  "ex_token_transfer dest n =
     ParsedInstruction ''spl-token''
       (ParsedObject ''transfer''
          \<lparr>info_source = ''PayerToken'', info_destination = dest,
           info_amount = Some n, info_tokenAmount = None\<rparr>)"

text \<open>A transfer of the system program: its \<open>info\<close> has \<open>lamports\<close> and no \<open>amount\<close>.\<close>

definition ex_system_transfer :: Instruction where
  "ex_system_transfer =
     ParsedInstruction ''system''
       (ParsedObject ''transfer''
          \<lparr>info_source = ''Payer'', info_destination = ''ata:Rcpt'',
           info_amount = None, info_tokenAmount = None\<rparr>)"

definition ex_memo :: Instruction where
  "ex_memo = ParsedInstruction ''spl-memo'' (ParsedText ''thanks'')"

text \<open>The second account receives \<open>received\<close> lamports; the first pays them and a fee.\<close>

definition ex_meta :: "bool \<Rightarrow> nat \<Rightarrow> TransactionMeta" where
  "ex_meta failed received =
     \<lparr>err = failed, preBalances = [5000000000, 0],
      postBalances = [5000000000 - received - 5000, received]\<rparr>"

definition ex_parsed ::
  "int option \<Rightarrow> bool \<Rightarrow> Instruction list \<Rightarrow> ParsedTransactionWithMeta" where
  "ex_parsed t failed ins = \<lparr>blockTime = t, meta = Some (ex_meta failed 0), instructions = ins\<rparr>"

definition ex_raw ::
  "int option \<Rightarrow> bool \<Rightarrow> string \<Rightarrow> nat \<Rightarrow> VersionedTransactionResponse" where
  "ex_raw t failed receiver received =
     \<lparr>blockTime = t, meta = Some (ex_meta failed received),
      getAccountKeys = Returned [''Payer'', receiver]\<rparr>"

text \<open>
  A ledger, and one that cannot be reached. With the clock at second 2000, \<open>fresh\<close> is
  a successful payment at second 1900 (15000 base units of the token, 0.01 SOL); \<open>failed\<close>
  is the same payment with an execution error; \<open>old\<close> is the payment at second 1000;
  \<open>stale\<close> is at second 1000 and failed; \<open>notime\<close> has no block time; \<open>other\<close> pays
  another account; \<open>short\<close> pays half the price; \<open>memo\<close> holds no transfer;
  \<open>system\<close> holds a transfer of the system program.
\<close>

fun ex_getParsedTransaction ::
  "string \<Rightarrow> commitment \<Rightarrow> ParsedTransactionWithMeta option outcome" where
  "ex_getParsedTransaction sig depth =
     (if sig = ''fresh''
      then Returned (Some (ex_parsed (Some 1900) False [ex_memo, ex_token_transfer ''ata:Rcpt'' 15000]))
      else if sig = ''failed''
      then Returned (Some (ex_parsed (Some 1900) True [ex_token_transfer ''ata:Rcpt'' 15000]))
      else if sig = ''old''
      then Returned (Some (ex_parsed (Some 1000) False [ex_token_transfer ''ata:Rcpt'' 15000]))
      else if sig = ''stale''
      then Returned (Some (ex_parsed (Some 1000) True [ex_token_transfer ''ata:Rcpt'' 15000]))
      else if sig = ''notime''
      then Returned (Some (ex_parsed None False [ex_token_transfer ''ata:Rcpt'' 15000]))
      else if sig = ''other''
      then Returned (Some (ex_parsed (Some 1900) False [ex_token_transfer ''ata:Other'' 15000]))
      else if sig = ''short''
      then Returned (Some (ex_parsed (Some 1900) False [ex_token_transfer ''ata:Rcpt'' 5000]))
      else if sig = ''memo''
      then Returned (Some (ex_parsed (Some 1900) False [ex_memo, PartiallyDecodedInstruction ''Prog'']))
      else if sig = ''system''
      then Returned (Some (ex_parsed (Some 1900) False [ex_system_transfer]))
      else Returned None)"

fun ex_getTransaction ::
  "string \<Rightarrow> commitment \<Rightarrow> VersionedTransactionResponse option outcome" where
  "ex_getTransaction sig depth =
     (if sig = ''fresh'' then Returned (Some (ex_raw (Some 1900) False ''Rcpt'' 10000000))
      else if sig = ''failed'' then Returned (Some (ex_raw (Some 1900) True ''Rcpt'' 10000000))
      else if sig = ''old'' then Returned (Some (ex_raw (Some 1000) False ''Rcpt'' 10000000))
      else if sig = ''stale'' then Returned (Some (ex_raw (Some 1000) True ''Rcpt'' 10000000))
      else if sig = ''notime'' then Returned (Some (ex_raw None False ''Rcpt'' 10000000))
      else if sig = ''other'' then Returned (Some (ex_raw (Some 1900) False ''Other'' 10000000))
      else if sig = ''short'' then Returned (Some (ex_raw (Some 1900) False ''Rcpt'' 5000000))
      else Returned None)"

definition ex_connection :: Connection where
  "ex_connection =
     \<lparr>getParsedTransaction = ex_getParsedTransaction, getTransaction = ex_getTransaction\<rparr>"

fun ex_unreachable :: "string \<Rightarrow> commitment \<Rightarrow> 'a outcome" where
  "ex_unreachable sig depth = Thrown ''timeout''"

definition ex_connection_down :: Connection where
  "ex_connection_down =
     \<lparr>getParsedTransaction = ex_unreachable, getTransaction = ex_unreachable\<rparr>"

fun ex_newConnection :: "string \<Rightarrow> Connection outcome" where
  "ex_newConnection url = Returned ex_connection"

fun ex_PublicKey :: "string \<Rightarrow> string outcome" where
  "ex_PublicKey s = Returned s"

fun ex_getAssociatedTokenAddress :: "string \<Rightarrow> string \<Rightarrow> string outcome" where
  "ex_getAssociatedTokenAddress mint owner = Returned (''ata:'' @ owner)"

fun ex_String_of :: "jsnum \<Rightarrow> string" where
  "ex_String_of n = ''n''"

definition ex_library :: library where
  "ex_library =
     \<lparr>newConnection = ex_newConnection, PublicKey = ex_PublicKey,
      getAssociatedTokenAddress = ex_getAssociatedTokenAddress, String_of = ex_String_of\<rparr>"

definition ex_server_sol :: SolanaX402Server where
  "ex_server_sol = \<lparr>connection = ex_connection, config = ex_config\<rparr>"

definition ex_server_sol_down :: SolanaX402Server where
  "ex_server_sol_down = \<lparr>connection = ex_connection_down, config = ex_config\<rparr>"

text \<open>The USDC server as the constructor leaves it, and after \<open>initialize\<close>.\<close>

definition ex_server_usdc_new :: SolanaX402Server_usdc where
  "ex_server_usdc_new =
     \<lparr>connection = ex_connection, config = ex_config, usdcMint = ''MintDev'',
      recipientTokenAccount = None\<rparr>"

definition ex_server_usdc :: SolanaX402Server_usdc where
  "ex_server_usdc = ex_server_usdc_new\<lparr>recipientTokenAccount := Some ''ata:Rcpt''\<rparr>"

definition ex_server_usdc_down :: SolanaX402Server_usdc where
  "ex_server_usdc_down = ex_server_usdc\<lparr>connection := ex_connection_down\<rparr>"

section \<open>Auxiliary facts\<close>

lemmas ex_defs = ex_constants_def ex_config_def ex_token_transfer_def ex_system_transfer_def
  ex_memo_def ex_meta_def ex_parsed_def ex_raw_def ex_connection_def ex_connection_down_def ex_library_def
  ex_server_sol_def ex_server_sol_down_def ex_server_usdc_new_def ex_server_usdc_def
  ex_server_usdc_down_def

lemma findIndex_ge: "- 1 \<le> findIndex P xs"
  by (induction xs) (auto simp: Let_def)

lemma findIndex_none: "findIndex P xs = - 1 \<longleftrightarrow> (\<forall>x \<in> set xs. \<not> P x)"
proof (induction xs)
  case Nil
  show ?case by simp
next
  case (Cons x xs)
  have "- 1 \<le> findIndex P xs" by (rule findIndex_ge)
  with Cons show ?case by (auto simp: Let_def)
qed


lemma verifyPayment_usdc_returns:
  "\<exists>v. verifyPayment_usdc L K s now sig e m = Returned v"
  by (simp add: verifyPayment_usdc_def split: outcome.splits)

lemma verifyPayment_sol_returns:
  "\<exists>v. verifyPayment_sol L s now sig e m = Returned v"
  by (simp add: verifyPayment_sol_def split: outcome.splits)

lemma verifyPayment_usdc_fetch_throws:
  "getParsedTransaction (connection s) sig Confirmed = Thrown msg \<Longrightarrow>
     verifyPayment_usdc L K s now sig e m =
       Returned (invalid (if msg = [] then ''Unknown error during verification'' else msg))"
  by (simp add: verifyPayment_usdc_def verifyPayment_try_usdc_def)

lemma verifyPayment_sol_fetch_throws:
  "getTransaction (connection s) sig Confirmed = Thrown msg \<Longrightarrow>
     verifyPayment_sol L s now sig e m = Returned (invalid (''Verification failed: '' @ msg))"
  by (simp add: verifyPayment_sol_def verifyPayment_try_sol_def)

subsection \<open>The verdict of each branch\<close>

lemmas age_defs = age_sol_def age_usdc_def stale_sol_def stale_usdc_def

lemma usdc_not_found:
  "getParsedTransaction (connection s) sig Confirmed = Returned None \<Longrightarrow>
     verifyPayment_usdc L K s now sig e m = Returned (invalid ''Transaction not found'')"
  by (simp add: verifyPayment_usdc_def verifyPayment_try_usdc_def)

lemma usdc_failed:
  "getParsedTransaction (connection s) sig Confirmed = Returned (Some tx) \<Longrightarrow> meta_err tx \<Longrightarrow>
     verifyPayment_usdc L K s now sig e m = Returned (invalid ''Transaction failed'')"
  by (simp add: verifyPayment_usdc_def verifyPayment_try_usdc_def)

lemma usdc_stale:
  "getParsedTransaction (connection s) sig Confirmed = Returned (Some tx) \<Longrightarrow> \<not> meta_err tx \<Longrightarrow>
   stale_usdc now tx m \<Longrightarrow>
     verifyPayment_usdc L K s now sig e m =
       Returned (invalid (too_old_usdc L (age_usdc now tx) (maxAge_default m)))"
  by (simp add: verifyPayment_usdc_def verifyPayment_try_usdc_def age_defs Let_def)

lemma usdc_no_transfer:
  "getParsedTransaction (connection s) sig Confirmed = Returned (Some tx) \<Longrightarrow> \<not> meta_err tx \<Longrightarrow>
   \<not> stale_usdc now tx m \<Longrightarrow> findTokenTransfer tx = None \<Longrightarrow>
     verifyPayment_usdc L K s now sig e m =
       Returned (invalid ''No token transfer found in transaction'')"
  by (auto simp add: verifyPayment_usdc_def verifyPayment_try_usdc_def age_defs Let_def)

lemma usdc_wrong_address:
  "getParsedTransaction (connection s) sig Confirmed = Returned (Some tx) \<Longrightarrow> \<not> meta_err tx \<Longrightarrow>
   \<not> stale_usdc now tx m \<Longrightarrow> findTokenTransfer tx = Some ti \<Longrightarrow>
   Some (t_destination ti) \<noteq> recipientTokenAccount s \<Longrightarrow>
     verifyPayment_usdc L K s now sig e m = Returned (invalid ''Payment sent to wrong address'')"
  by (auto simp add: verifyPayment_usdc_def verifyPayment_try_usdc_def age_defs Let_def)

lemma usdc_insufficient:
  "getParsedTransaction (connection s) sig Confirmed = Returned (Some tx) \<Longrightarrow> \<not> meta_err tx \<Longrightarrow>
   \<not> stale_usdc now tx m \<Longrightarrow> findTokenTransfer tx = Some ti \<Longrightarrow>
   Some (t_destination ti) = recipientTokenAccount s \<Longrightarrow>
   js_lt (ToNumber (t_amount ti)) (Fin (e * 10 ^ USDC_DECIMALS K)) \<Longrightarrow>
     verifyPayment_usdc L K s now sig e m =
       Returned (invalid (insufficient_usdc L
         (js_div (ToNumber (t_amount ti)) (Fin (10 ^ USDC_DECIMALS K))) e))"
  by (auto simp add: verifyPayment_usdc_def verifyPayment_try_usdc_def age_defs Let_def)

lemma usdc_accept:
  "getParsedTransaction (connection s) sig Confirmed = Returned (Some tx) \<Longrightarrow> \<not> meta_err tx \<Longrightarrow>
   \<not> stale_usdc now tx m \<Longrightarrow> findTokenTransfer tx = Some ti \<Longrightarrow>
   Some (t_destination ti) = recipientTokenAccount s \<Longrightarrow>
   \<not> js_lt (ToNumber (t_amount ti)) (Fin (e * 10 ^ USDC_DECIMALS K)) \<Longrightarrow>
     verifyPayment_usdc L K s now sig e m =
       Returned
         \<lparr>valid = True, signature = Some sig,
          amount = Some (js_div (ToNumber (t_amount ti)) (Fin (10 ^ USDC_DECIMALS K))),
          token = Some ''USDC'', from_addr = Some (t_source ti),
          to_addr = Some (t_destination ti),
          timestamp = (if blockTime tx = Some 0 then None else blockTime tx),
          error = None\<rparr>"
  by (auto simp add: verifyPayment_usdc_def verifyPayment_try_usdc_def age_defs Let_def)

lemma sol_not_found:
  "getTransaction (connection s) sig Confirmed = Returned None \<Longrightarrow>
     verifyPayment_sol L s now sig e m = Returned (invalid ''Transaction not found'')"
  by (simp add: verifyPayment_sol_def verifyPayment_try_sol_def)

lemma sol_stale:
  "getTransaction (connection s) sig Confirmed = Returned (Some tx) \<Longrightarrow> stale_sol now tx m \<Longrightarrow>
     verifyPayment_sol L s now sig e m =
       Returned (invalid (too_old_sol L (age_sol now tx) (maxAge_default m)))"
  by (simp add: verifyPayment_sol_def verifyPayment_try_sol_def age_defs Let_def)

lemma sol_failed:
  "getTransaction (connection s) sig Confirmed = Returned (Some tx) \<Longrightarrow> \<not> stale_sol now tx m \<Longrightarrow>
   meta_err tx \<Longrightarrow>
     verifyPayment_sol L s now sig e m = Returned (invalid ''Transaction failed'')"
  by (simp add: verifyPayment_sol_def verifyPayment_try_sol_def age_defs Let_def)

lemma sol_key_throws:
  "getTransaction (connection s) sig Confirmed = Returned (Some tx) \<Longrightarrow> \<not> stale_sol now tx m \<Longrightarrow>
   \<not> meta_err tx \<Longrightarrow> PublicKey L (recipientAddress (config s)) = Thrown x \<Longrightarrow>
     verifyPayment_sol L s now sig e m = Returned (invalid (''Verification failed: '' @ x))"
  by (simp add: verifyPayment_sol_def verifyPayment_try_sol_def age_defs Let_def)

lemma sol_keys_throw:
  "getTransaction (connection s) sig Confirmed = Returned (Some tx) \<Longrightarrow> \<not> stale_sol now tx m \<Longrightarrow>
   \<not> meta_err tx \<Longrightarrow> PublicKey L (recipientAddress (config s)) = Returned k \<Longrightarrow>
   getAccountKeys tx = Thrown x \<Longrightarrow>
     verifyPayment_sol L s now sig e m = Returned (invalid (''Verification failed: '' @ x))"
  by (simp add: verifyPayment_sol_def verifyPayment_try_sol_def age_defs Let_def)

lemma sol_recipient_missing:
  "getTransaction (connection s) sig Confirmed = Returned (Some tx) \<Longrightarrow> \<not> stale_sol now tx m \<Longrightarrow>
   \<not> meta_err tx \<Longrightarrow> PublicKey L (recipientAddress (config s)) = Returned k \<Longrightarrow>
   getAccountKeys tx = Returned keys \<Longrightarrow> k \<notin> set keys \<Longrightarrow>
     verifyPayment_sol L s now sig e m =
       Returned (invalid ''Recipient not found in transaction'')"
  by (auto simp add: verifyPayment_sol_def verifyPayment_try_sol_def age_defs Let_def findIndex_none)

lemma sol_mismatch:
  "getTransaction (connection s) sig Confirmed = Returned (Some tx) \<Longrightarrow> \<not> stale_sol now tx m \<Longrightarrow>
   \<not> meta_err tx \<Longrightarrow> PublicKey L (recipientAddress (config s)) = Returned k \<Longrightarrow>
   getAccountKeys tx = Returned keys \<Longrightarrow> k \<in> set keys \<Longrightarrow>
   \<bar>receivedSol tx (findIndex (\<lambda>key. key = k) keys) - e\<bar> > tolerance \<Longrightarrow>
     verifyPayment_sol L s now sig e m =
       Returned (invalid (amount_mismatch_sol L e
          (receivedSol tx (findIndex (\<lambda>key. key = k) keys))))"
  by (auto simp add: verifyPayment_sol_def verifyPayment_try_sol_def age_defs Let_def findIndex_none)

lemma sol_accept:
  assumes "getTransaction (connection s) sig Confirmed = Returned (Some tx)"
    and "\<not> stale_sol now tx m" and "\<not> meta_err tx"
    and "PublicKey L (recipientAddress (config s)) = Returned k"
    and "getAccountKeys tx = Returned keys" and "k \<in> set keys"
    and "\<not> \<bar>receivedSol tx (findIndex (\<lambda>key. key = k) keys) - e\<bar> > tolerance"
  shows "verifyPayment_sol L s now sig e m =
       Returned
         \<lparr>valid = True, signature = Some sig,
          amount = Some (Fin (receivedSol tx (findIndex (\<lambda>key. key = k) keys))),
          token = Some ''SOL'', from_addr = Some (hd keys),
          to_addr = Some (recipientAddress (config s)),
          timestamp = Some (case blockTime tx of None \<Rightarrow> 0 | Some t \<Rightarrow> t), error = None\<rparr>"
proof -
  have ne: "findIndex (\<lambda>key. key = k) keys \<noteq> - 1"
    using assms(6) by (simp add: findIndex_none)
  obtain a rest where keys: "keys = a # rest"
    using assms(6) by (cases keys) auto
  have hd: "hd keys = a" by (simp add: keys)
  show ?thesis
    unfolding hd using assms(1-5,7) ne unfolding keys
    by (simp add: verifyPayment_sol_def verifyPayment_try_sol_def age_defs Let_def
        del: findIndex.simps)
qed

section \<open>Errors that reach the caller\<close>

text \<open>
  C1, as the code has it. Neither \<open>verifyPayment\<close> ever throws: the whole body is inside
  \<open>try\<close>, and the \<open>catch\<close> clause returns a verdict. When the ledger fetch fails with
  message \<open>msg\<close>, the USDC server returns \<open>{valid: false, error: msg}\<close> (or
  \<open>Unknown error during verification\<close> for an empty message) and the SOL server returns
  \<open>{valid: false, error: "Verification failed: " + msg}\<close>. So a failed fetch is a verdict
  like the business failures, not a thrown error.
\<close>

theorem verifyPayment_never_throws:
  "(\<exists>v. verifyPayment_usdc L K s now sig e m = Returned v) \<and>
   (\<exists>v. verifyPayment_sol L s' now sig e m = Returned v) \<and>
   (getParsedTransaction (connection s) sig Confirmed = Thrown msg \<longrightarrow>
      verifyPayment_usdc L K s now sig e m =
        Returned (invalid (if msg = [] then ''Unknown error during verification'' else msg))) \<and>
   (getTransaction (connection s') sig Confirmed = Thrown msg \<longrightarrow>
      verifyPayment_sol L s' now sig e m =
        Returned (invalid (''Verification failed: '' @ msg)))"
  by (intro conjI impI verifyPayment_usdc_returns verifyPayment_sol_returns
      verifyPayment_usdc_fetch_throws verifyPayment_sol_fetch_throws)

theorem verifyPayment_never_throws_witness:
  "getParsedTransaction (connection ex_server_usdc_down) ''fresh'' Confirmed = Thrown ''timeout'' \<and>
   getTransaction (connection ex_server_sol_down) ''fresh'' Confirmed = Thrown ''timeout'' \<and>
   verifyPayment_usdc ex_library ex_constants ex_server_usdc_down 2000000 ''fresh'' (1 / 100) None =
     Returned (invalid ''timeout'') \<and>
   verifyPayment_sol ex_library ex_server_sol_down 2000000 ''fresh'' (1 / 100) None =
     Returned (invalid ''Verification failed: timeout'')"
  using verifyPayment_never_throws [of ex_library ex_constants ex_server_usdc_down 2000000
      "''fresh''" "1 / 100" None ex_server_sol_down "''timeout''"]
  by (simp add: ex_defs)

text \<open>
  The claim as stated fails where the ledger cannot be reached: the fetch throws, and both
  servers return a verdict.
\<close>

theorem fetch_failure_is_returned:
  "getTransaction (connection ex_server_sol_down) ''abc'' Confirmed = Thrown ''timeout'' \<and>
   verifyPayment_sol ex_library ex_server_sol_down 2000000 ''abc'' (1 / 100) None =
     Returned (invalid ''Verification failed: timeout'') \<and>
   getParsedTransaction (connection ex_server_usdc_down) ''abc'' Confirmed = Thrown ''timeout'' \<and>
   verifyPayment_usdc ex_library ex_constants ex_server_usdc_down 2000000 ''abc'' (1 / 100) None =
     Returned (invalid ''timeout'')"
  by (simp add: ex_defs verifyPayment_sol_def verifyPayment_try_sol_def
      verifyPayment_usdc_def verifyPayment_try_usdc_def)

section \<open>The order of the checks\<close>

lemmas cond_defs = meta_err_def maxAge_default_def findTokenTransfer_def
  receivedSol_def balance_at_def LAMPORTS_PER_SOL_def tolerance_def age_defs
  too_old_sol_def too_old_usdc_def amount_mismatch_sol_def insufficient_usdc_def

lemmas vp_defs = verifyPayment_usdc_def verifyPayment_try_usdc_def verifyPayment_sol_def
  verifyPayment_try_sol_def cond_defs

text \<open>
  C2, as the code has it. Each check decides the verdict when the checks before it have
  passed, whatever the later ones would say. The SOL server checks in the order fetch,
  freshness, execution, recipient among the account keys, amount. The USDC server checks in
  the order fetch, execution, freshness, transfer extraction, recipient, amount. So a
  record that is both too old and failed is \<open>Transaction too old\<close> for the SOL server and
  \<open>Transaction failed\<close> for the USDC server.
\<close>

theorem verifyPayment_check_order:
  "(getTransaction (connection s) sig Confirmed = Returned None \<longrightarrow>
      verifyPayment_sol L s now sig e m = Returned (invalid ''Transaction not found'')) \<and>
   (getTransaction (connection s) sig Confirmed = Returned (Some tx) \<longrightarrow>
      (stale_sol now tx m \<longrightarrow>
         verifyPayment_sol L s now sig e m =
           Returned (invalid (too_old_sol L (age_sol now tx) (maxAge_default m)))) \<and>
      (\<not> stale_sol now tx m \<and> meta_err tx \<longrightarrow>
         verifyPayment_sol L s now sig e m = Returned (invalid ''Transaction failed'')) \<and>
      (\<not> stale_sol now tx m \<and> \<not> meta_err tx
         \<and> PublicKey L (recipientAddress (config s)) = Returned k
         \<and> getAccountKeys tx = Returned keys \<longrightarrow>
           (k \<notin> set keys \<longrightarrow>
              verifyPayment_sol L s now sig e m =
                Returned (invalid ''Recipient not found in transaction'')) \<and>
           (k \<in> set keys \<and> \<bar>receivedSol tx (findIndex (\<lambda>key. key = k) keys) - e\<bar> > tolerance \<longrightarrow>
              verifyPayment_sol L s now sig e m =
                Returned (invalid (amount_mismatch_sol L e
                  (receivedSol tx (findIndex (\<lambda>key. key = k) keys))))))) \<and>
   (getParsedTransaction (connection s') sig Confirmed = Returned None \<longrightarrow>
      verifyPayment_usdc L K s' now sig e m = Returned (invalid ''Transaction not found'')) \<and>
   (getParsedTransaction (connection s') sig Confirmed = Returned (Some tx') \<longrightarrow>
      (meta_err tx' \<longrightarrow>
         verifyPayment_usdc L K s' now sig e m = Returned (invalid ''Transaction failed'')) \<and>
      (\<not> meta_err tx' \<and> stale_usdc now tx' m \<longrightarrow>
         verifyPayment_usdc L K s' now sig e m =
           Returned (invalid (too_old_usdc L (age_usdc now tx') (maxAge_default m)))) \<and>
      (\<not> meta_err tx' \<and> \<not> stale_usdc now tx' m \<and> findTokenTransfer tx' = None \<longrightarrow>
         verifyPayment_usdc L K s' now sig e m =
           Returned (invalid ''No token transfer found in transaction'')) \<and>
      (\<not> meta_err tx' \<and> \<not> stale_usdc now tx' m \<and> findTokenTransfer tx' = Some ti \<longrightarrow>
         (Some (t_destination ti) \<noteq> recipientTokenAccount s' \<longrightarrow>
            verifyPayment_usdc L K s' now sig e m =
              Returned (invalid ''Payment sent to wrong address'')) \<and>
         (Some (t_destination ti) = recipientTokenAccount s'
            \<and> js_lt (ToNumber (t_amount ti)) (Fin (e * 10 ^ USDC_DECIMALS K)) \<longrightarrow>
            verifyPayment_usdc L K s' now sig e m =
              Returned (invalid (insufficient_usdc L
                (js_div (ToNumber (t_amount ti)) (Fin (10 ^ USDC_DECIMALS K))) e)))))"
  by (intro conjI impI; (elim conjE)?;
      (rule sol_not_found sol_stale sol_failed sol_recipient_missing sol_mismatch
         usdc_not_found usdc_failed usdc_stale usdc_no_transfer usdc_wrong_address
         usdc_insufficient; assumption))

theorem verifyPayment_check_order_witness:
  "verifyPayment_sol ex_library ex_server_sol 2000000 ''stale'' (1 / 100) None =
     Returned (invalid ''Transaction too old: ns (max ns)'') \<and>
   verifyPayment_sol ex_library ex_server_sol 2000000 ''failed'' (1 / 100) None =
     Returned (invalid ''Transaction failed'') \<and>
   verifyPayment_sol ex_library ex_server_sol 2000000 ''other'' (1 / 100) None =
     Returned (invalid ''Recipient not found in transaction'') \<and>
   verifyPayment_sol ex_library ex_server_sol 2000000 ''short'' (1 / 100) None =
     Returned (invalid ''Amount mismatch: expected n SOL, got n SOL'') \<and>
   verifyPayment_sol ex_library ex_server_sol 2000000 ''none'' (1 / 100) None =
     Returned (invalid ''Transaction not found'') \<and>
   verifyPayment_usdc ex_library ex_constants ex_server_usdc 2000000 ''stale'' (1 / 100) None =
     Returned (invalid ''Transaction failed'') \<and>
   verifyPayment_usdc ex_library ex_constants ex_server_usdc 2000000 ''old'' (1 / 100) None =
     Returned (invalid ''Transaction too old (ns > ns)'') \<and>
   verifyPayment_usdc ex_library ex_constants ex_server_usdc 2000000 ''memo'' (1 / 100) None =
     Returned (invalid ''No token transfer found in transaction'') \<and>
   verifyPayment_usdc ex_library ex_constants ex_server_usdc 2000000 ''other'' (1 / 100) None =
     Returned (invalid ''Payment sent to wrong address'') \<and>
   verifyPayment_usdc ex_library ex_constants ex_server_usdc 2000000 ''short'' (1 / 100) None =
     Returned (invalid ''Insufficient payment amount: n < n'') \<and>
   verifyPayment_usdc ex_library ex_constants ex_server_usdc 2000000 ''none'' (1 / 100) None =
     Returned (invalid ''Transaction not found'')"
proof -
  note order = verifyPayment_check_order [where L = ex_library and K = ex_constants
      and s = ex_server_sol and s' = ex_server_usdc and now = 2000000 and e = "1 / 100"
      and m = None and k = "''Rcpt''"]
  note eval = ex_defs cond_defs
  have 1: "verifyPayment_sol ex_library ex_server_sol 2000000 ''stale'' (1 / 100) None =
     Returned (invalid ''Transaction too old: ns (max ns)'')"
    using order [where sig = "''stale''" and tx = "ex_raw (Some 1000) True ''Rcpt'' 10000000"]
    by (simp add: eval)
  have 2: "verifyPayment_sol ex_library ex_server_sol 2000000 ''failed'' (1 / 100) None =
     Returned (invalid ''Transaction failed'')"
    using order [where sig = "''failed''" and tx = "ex_raw (Some 1900) True ''Rcpt'' 10000000"]
    by (simp add: eval)
  have 3: "verifyPayment_sol ex_library ex_server_sol 2000000 ''other'' (1 / 100) None =
     Returned (invalid ''Recipient not found in transaction'')"
    using order [where sig = "''other''" and tx = "ex_raw (Some 1900) False ''Other'' 10000000"
        and keys = "[''Payer'', ''Other'']"]
    by (simp add: eval)
  have 4: "verifyPayment_sol ex_library ex_server_sol 2000000 ''short'' (1 / 100) None =
     Returned (invalid ''Amount mismatch: expected n SOL, got n SOL'')"
    using order [where sig = "''short''" and tx = "ex_raw (Some 1900) False ''Rcpt'' 5000000"
        and keys = "[''Payer'', ''Rcpt'']"]
    by (simp add: eval)
  have 5: "verifyPayment_sol ex_library ex_server_sol 2000000 ''none'' (1 / 100) None =
     Returned (invalid ''Transaction not found'')"
    using order [where sig = "''none''"] by (simp add: eval)
  have 6: "verifyPayment_usdc ex_library ex_constants ex_server_usdc 2000000 ''stale'' (1 / 100) None =
     Returned (invalid ''Transaction failed'')"
    using order [where sig = "''stale''"
        and tx' = "ex_parsed (Some 1000) True [ex_token_transfer ''ata:Rcpt'' 15000]"]
    by (simp add: eval)
  have 7: "verifyPayment_usdc ex_library ex_constants ex_server_usdc 2000000 ''old'' (1 / 100) None =
     Returned (invalid ''Transaction too old (ns > ns)'')"
    using order [where sig = "''old''"
        and tx' = "ex_parsed (Some 1000) False [ex_token_transfer ''ata:Rcpt'' 15000]"]
    by (simp add: eval)
  have 8: "verifyPayment_usdc ex_library ex_constants ex_server_usdc 2000000 ''memo'' (1 / 100) None =
     Returned (invalid ''No token transfer found in transaction'')"
    using order [where sig = "''memo''"
        and tx' = "ex_parsed (Some 1900) False [ex_memo, PartiallyDecodedInstruction ''Prog'']"]
    by (simp add: eval)
  have 9: "verifyPayment_usdc ex_library ex_constants ex_server_usdc 2000000 ''other'' (1 / 100) None =
     Returned (invalid ''Payment sent to wrong address'')"
    using order [where sig = "''other''"
        and tx' = "ex_parsed (Some 1900) False [ex_token_transfer ''ata:Other'' 15000]"
        and ti = "\<lparr>t_source = ''PayerToken'', t_destination = ''ata:Other'', t_amount = Some 15000\<rparr>"]
    by (simp add: eval)
  have 10: "verifyPayment_usdc ex_library ex_constants ex_server_usdc 2000000 ''short'' (1 / 100) None =
     Returned (invalid ''Insufficient payment amount: n < n'')"
    using order [where sig = "''short''"
        and tx' = "ex_parsed (Some 1900) False [ex_token_transfer ''ata:Rcpt'' 5000]"
        and ti = "\<lparr>t_source = ''PayerToken'', t_destination = ''ata:Rcpt'', t_amount = Some 5000\<rparr>"]
    by (simp add: eval)
  have 11: "verifyPayment_usdc ex_library ex_constants ex_server_usdc 2000000 ''none'' (1 / 100) None =
     Returned (invalid ''Transaction not found'')"
    using order [where sig = "''none''"] by (simp add: eval)
  from 1 2 3 4 5 6 7 8 9 10 11 show ?thesis by (intro conjI)
qed

text \<open>
  The claim as stated fails in the USDC server: for a record that is both older than the
  maximum age and failed, it answers \<open>Transaction failed\<close>.
\<close>

theorem stale_failed_usdc:
  "getParsedTransaction (connection ex_server_usdc) ''stale'' Confirmed =
     Returned (Some (ex_parsed (Some 1000) True [ex_token_transfer ''ata:Rcpt'' 15000])) \<and>
   meta_err (ex_parsed (Some 1000) True [ex_token_transfer ''ata:Rcpt'' 15000]) \<and>
   rat_of_int 2000000 / 1000 - rat_of_int 1000 > 300 \<and>
   verifyPayment_usdc ex_library ex_constants ex_server_usdc 2000000 ''stale'' (1 / 100) (Some 300) =
     Returned (invalid ''Transaction failed'')"
  by (simp add: ex_defs vp_defs)

section \<open>The amount check of the SOL server\<close>




section \<open>The amount check of the USDC server\<close>



section \<open>What the transfer extractor matches\<close>

text \<open>
  The extractor returns the transfer of the first instruction, in list order, whose parsed
  type is \<open>transfer\<close> or \<open>transferChecked\<close>, and nothing when there is none. The
  program of the instruction plays no part.
\<close>

lemma findTokenTransfer_loop_first:
  "findTokenTransfer_loop ins =
     (case filter (\<lambda>i. transfer_of i \<noteq> None) ins of [] \<Rightarrow> None | i # _ \<Rightarrow> transfer_of i)"
  by (induction ins rule: findTokenTransfer_loop.induct) auto

lemma findTokenTransfer_loop_none:
  "findTokenTransfer_loop ins = None \<longleftrightarrow> (\<forall>i \<in> set ins. transfer_of i = None)"
  by (induction ins rule: findTokenTransfer_loop.induct) auto

lemma findTokenTransfer_none:
  "findTokenTransfer tx = None \<longleftrightarrow> (\<forall>i \<in> set (instructions tx). transfer_of i = None)"
  by (simp add: findTokenTransfer_def findTokenTransfer_loop_none)

lemma transfer_of_any_program:
  "transfer_of (ParsedInstruction program parsed) = transfer_of (ParsedInstruction program' parsed)"
  by (cases parsed) simp_all

text \<open>
  C5 at a record whose only instruction is a transfer of the system program (a native SOL
  transfer, parsed with type \<open>transfer\<close>, with \<open>lamports\<close> in place of an amount), sent
  to the address of the recipient's token account. \<open>findTokenTransfer\<close> compares only
  \<open>parsed.type\<close>, never the program, so it returns this instruction as a token transfer
  with an undefined amount; \<open>undefined < expected\<close> is false, and \<open>verifyPayment\<close>
  accepts the record with amount \<open>NaN\<close>.
\<close>

theorem system_transfer_is_extracted:
  "findTokenTransfer (ex_parsed (Some 1900) False [ex_system_transfer]) =
     Some \<lparr>t_source = ''Payer'', t_destination = ''ata:Rcpt'', t_amount = None\<rparr> \<and>
   verifyPayment_usdc ex_library ex_constants ex_server_usdc 2000000 ''system'' (1 / 100) None =
     Returned \<lparr>valid = True, signature = Some ''system'', amount = Some NaN,
               token = Some ''USDC'', from_addr = Some ''Payer'', to_addr = Some ''ata:Rcpt'',
               timestamp = Some 1900, error = None\<rparr>"
  by (simp add: ex_defs vp_defs)

section \<open>The two shapes of a verdict\<close>

lemma invalid_shape:
  "\<not> valid (invalid msg) \<and> error (invalid msg) = Some msg \<and> success_fields_absent (invalid msg)"
  by (simp add: invalid_def success_fields_absent_def)

lemma usdc_shape:
  "\<exists>v. verifyPayment_usdc L K s now sig e m = Returned v
      \<and> (valid v \<longrightarrow> success_fields_present v \<and> error v = None)
      \<and> (\<not> valid v \<longrightarrow> error v \<noteq> None \<and> success_fields_absent v)
      \<and> (\<forall>tx. valid v \<and> getParsedTransaction (connection s) sig Confirmed = Returned (Some tx)
            \<longrightarrow> timestamp v = (if blockTime tx = Some 0 then None else blockTime tx))"
proof (cases "getParsedTransaction (connection s) sig Confirmed")
  case (Thrown x)
  from verifyPayment_usdc_fetch_throws [OF this, where L = L and K = K and now = now and e = e and m = m]
  show ?thesis by (simp add: invalid_shape)
next
  case (Returned r)
  show ?thesis
  proof (cases r)
    case None
    with Returned usdc_not_found [where L = L and K = K and now = now and e = e and m = m and s = s and sig = sig]
    show ?thesis by (simp add: invalid_shape)
  next
    case (Some tx)
    with Returned have fetch: "getParsedTransaction (connection s) sig Confirmed = Returned (Some tx)"
      by simp
    consider (a) "meta_err tx" | (b) "\<not> meta_err tx" "stale_usdc now tx m"
      | (c) "\<not> meta_err tx" "\<not> stale_usdc now tx m" "findTokenTransfer tx = None"
      | (d) ti where "\<not> meta_err tx" "\<not> stale_usdc now tx m" "findTokenTransfer tx = Some ti"
          "Some (t_destination ti) \<noteq> recipientTokenAccount s"
      | (e) ti where "\<not> meta_err tx" "\<not> stale_usdc now tx m" "findTokenTransfer tx = Some ti"
          "Some (t_destination ti) = recipientTokenAccount s"
          "js_lt (ToNumber (t_amount ti)) (Fin (e * 10 ^ USDC_DECIMALS K))"
      | (f) ti where "\<not> meta_err tx" "\<not> stale_usdc now tx m" "findTokenTransfer tx = Some ti"
          "Some (t_destination ti) = recipientTokenAccount s"
          "\<not> js_lt (ToNumber (t_amount ti)) (Fin (e * 10 ^ USDC_DECIMALS K))"
      by (cases "findTokenTransfer tx") auto
    then show ?thesis
    proof cases
      case a
      from usdc_failed [OF fetch a, where L = L and K = K and now = now and e = e and m = m]
      show ?thesis by (simp add: invalid_shape)
    next
      case b
      from usdc_stale [OF fetch b, where L = L and K = K and e = e]
      show ?thesis by (simp add: invalid_shape)
    next
      case c
      from usdc_no_transfer [OF fetch c, where L = L and K = K and e = e]
      show ?thesis by (simp add: invalid_shape)
    next
      case (d ti)
      from usdc_wrong_address [OF fetch d, where L = L and K = K and e = e]
      show ?thesis by (simp add: invalid_shape)
    next
      case (e ti)
      from usdc_insufficient [OF fetch e, where L = L]
      show ?thesis by (simp add: invalid_shape)
    next
      case (f ti)
      from usdc_accept [OF fetch f, where L = L] fetch
      show ?thesis by (simp add: success_fields_present_def)
    qed
  qed
qed

lemma sol_shape:
  "\<exists>v. verifyPayment_sol L s now sig e m = Returned v
      \<and> (valid v \<longrightarrow> success_fields_present v \<and> timestamp v \<noteq> None \<and> error v = None)
      \<and> (\<not> valid v \<longrightarrow> error v \<noteq> None \<and> success_fields_absent v)"
proof (cases "getTransaction (connection s) sig Confirmed")
  case (Thrown x)
  from verifyPayment_sol_fetch_throws [OF this, where L = L and now = now and e = e and m = m]
  show ?thesis by (simp add: invalid_shape)
next
  case (Returned r)
  show ?thesis
  proof (cases r)
    case None
    with Returned sol_not_found [where L = L and now = now and e = e and m = m and s = s and sig = sig]
    show ?thesis by (simp add: invalid_shape)
  next
    case (Some tx)
    with Returned have fetch: "getTransaction (connection s) sig Confirmed = Returned (Some tx)"
      by simp
    show ?thesis
    proof (cases "stale_sol now tx m")
      case True
      from sol_stale [OF fetch True, where L = L and e = e]
      show ?thesis by (simp add: invalid_shape)
    next
      case fresh: False
      show ?thesis
      proof (cases "meta_err tx")
        case True
        from sol_failed [OF fetch fresh True, where L = L and e = e]
        show ?thesis by (simp add: invalid_shape)
      next
        case ok: False
        show ?thesis
        proof (cases "PublicKey L (recipientAddress (config s))")
          case (Thrown x)
          from sol_key_throws [OF fetch fresh ok Thrown, where e = e]
          show ?thesis by (simp add: invalid_shape)
        next
          case key: (Returned k)
          show ?thesis
          proof (cases "getAccountKeys tx")
            case (Thrown x)
            from sol_keys_throw [OF fetch fresh ok key Thrown, where e = e]
            show ?thesis by (simp add: invalid_shape)
          next
            case keys: (Returned keys)
            consider (a) "k \<notin> set keys"
              | (b) "k \<in> set keys" "\<bar>receivedSol tx (findIndex (\<lambda>key. key = k) keys) - e\<bar> > tolerance"
              | (c) "k \<in> set keys" "\<not> \<bar>receivedSol tx (findIndex (\<lambda>key. key = k) keys) - e\<bar> > tolerance"
              by blast
            then show ?thesis
            proof cases
              case a
              from sol_recipient_missing [OF fetch fresh ok key keys a, where e = e]
              show ?thesis by (simp add: invalid_shape)
            next
              case b
              from sol_mismatch [OF fetch fresh ok key keys b]
              show ?thesis by (simp add: invalid_shape)
            next
              case c
              from sol_accept [OF fetch fresh ok key keys c]
              show ?thesis by (simp add: success_fields_present_def)
            qed
          qed
        qed
      qed
    qed
  qed
qed

text \<open>
  C6, as the code has it. Both \<open>verifyPayment\<close> always return a verdict. A valid verdict
  has signature, amount, token, from and to, and no error; an invalid verdict has an error
  and none of the success fields. The SOL server's valid verdict always has a timestamp.
  The USDC server's valid verdict has \<open>timestamp: txTime || undefined\<close>: the block time
  of the record, absent when that is null or \<open>0\<close>.
\<close>

theorem verdict_shape:
  "(\<exists>v. verifyPayment_sol L s now sig e m = Returned v
      \<and> (valid v \<longrightarrow> success_fields_present v \<and> timestamp v \<noteq> None \<and> error v = None)
      \<and> (\<not> valid v \<longrightarrow> error v \<noteq> None \<and> success_fields_absent v)) \<and>
   (\<exists>v. verifyPayment_usdc L K s' now sig e m = Returned v
      \<and> (valid v \<longrightarrow> success_fields_present v \<and> error v = None)
      \<and> (\<not> valid v \<longrightarrow> error v \<noteq> None \<and> success_fields_absent v)
      \<and> (\<forall>tx. valid v \<and> getParsedTransaction (connection s') sig Confirmed = Returned (Some tx)
            \<longrightarrow> timestamp v = (if blockTime tx = Some 0 then None else blockTime tx)))"
  by (intro conjI sol_shape usdc_shape)

theorem verdict_shape_witness:
  "(\<exists>v. verifyPayment_sol ex_library ex_server_sol 2000000 ''fresh'' (1 / 100) None = Returned v
      \<and> valid v \<and> success_fields_present v \<and> timestamp v \<noteq> None \<and> error v = None) \<and>
   (\<exists>v. verifyPayment_usdc ex_library ex_constants ex_server_usdc 2000000 ''fresh'' (1 / 100) None
          = Returned v
      \<and> valid v \<and> success_fields_present v \<and> timestamp v = Some 1900 \<and> error v = None) \<and>
   (\<exists>v. verifyPayment_sol ex_library ex_server_sol 2000000 ''other'' (1 / 100) None = Returned v
      \<and> \<not> valid v \<and> error v \<noteq> None \<and> success_fields_absent v) \<and>
   (\<exists>v. verifyPayment_usdc ex_library ex_constants ex_server_usdc 2000000 ''other'' (1 / 100) None
          = Returned v
      \<and> \<not> valid v \<and> error v \<noteq> None \<and> success_fields_absent v)"
proof -
  note shape = verdict_shape [where L = ex_library and K = ex_constants and s = ex_server_sol
      and s' = ex_server_usdc and now = 2000000 and e = "1 / 100" and m = None]
  have fresh_sol: "verifyPayment_sol ex_library ex_server_sol 2000000 ''fresh'' (1 / 100) None
      = Returned v \<Longrightarrow> valid v" for v
    by (auto simp add: ex_defs vp_defs)
  have fresh_usdc: "verifyPayment_usdc ex_library ex_constants ex_server_usdc 2000000 ''fresh'' (1 / 100) None
      = Returned v \<Longrightarrow> valid v" for v
    by (auto simp add: ex_defs vp_defs)
  have other_sol: "verifyPayment_sol ex_library ex_server_sol 2000000 ''other'' (1 / 100) None
      = Returned v \<Longrightarrow> \<not> valid v" for v
    by (auto simp add: ex_defs vp_defs invalid_def)
  have other_usdc: "verifyPayment_usdc ex_library ex_constants ex_server_usdc 2000000 ''other'' (1 / 100) None
      = Returned v \<Longrightarrow> \<not> valid v" for v
    by (auto simp add: ex_defs vp_defs invalid_def)
  have fetch: "getParsedTransaction (connection ex_server_usdc) ''fresh'' Confirmed =
     Returned (Some (ex_parsed (Some 1900) False [ex_memo, ex_token_transfer ''ata:Rcpt'' 15000]))"
    by (simp add: ex_defs)
  have 1: "\<exists>v. verifyPayment_sol ex_library ex_server_sol 2000000 ''fresh'' (1 / 100) None = Returned v
      \<and> valid v \<and> success_fields_present v \<and> timestamp v \<noteq> None \<and> error v = None"
    using shape [where sig = "''fresh''"] fresh_sol by blast
  have 2: "\<exists>v. verifyPayment_usdc ex_library ex_constants ex_server_usdc 2000000 ''fresh'' (1 / 100) None
          = Returned v
      \<and> valid v \<and> success_fields_present v \<and> timestamp v = Some 1900 \<and> error v = None"
  proof -
    from shape [where sig = "''fresh''"] obtain v where
      v: "verifyPayment_usdc ex_library ex_constants ex_server_usdc 2000000 ''fresh'' (1 / 100) None
          = Returned v"
      "valid v \<longrightarrow> success_fields_present v \<and> error v = None"
      "\<forall>tx. valid v \<and> getParsedTransaction (connection ex_server_usdc) ''fresh'' Confirmed
              = Returned (Some tx)
            \<longrightarrow> timestamp v = (if blockTime tx = Some 0 then None else blockTime tx)"
      by blast
    from fresh_usdc [OF v(1)] have "valid v" .
    moreover from v(3) \<open>valid v\<close> fetch have "timestamp v = Some 1900"
      by (simp add: ex_parsed_def)
    ultimately show ?thesis using v(1,2) by blast
  qed
  have 3: "\<exists>v. verifyPayment_sol ex_library ex_server_sol 2000000 ''other'' (1 / 100) None = Returned v
      \<and> \<not> valid v \<and> error v \<noteq> None \<and> success_fields_absent v"
    using shape [where sig = "''other''"] other_sol by blast
  have 4: "\<exists>v. verifyPayment_usdc ex_library ex_constants ex_server_usdc 2000000 ''other'' (1 / 100) None
          = Returned v
      \<and> \<not> valid v \<and> error v \<noteq> None \<and> success_fields_absent v"
    using shape [where sig = "''other''"] other_usdc by blast
  from 1 2 3 4 show ?thesis by (intro conjI)
qed

text \<open>
  The claim as stated fails for the USDC server at a record without block time: the
  verdict is valid and has no timestamp.
\<close>

theorem valid_without_timestamp:
  "blockTime (ex_parsed None False [ex_token_transfer ''ata:Rcpt'' 15000]) = None \<and>
   verifyPayment_usdc ex_library ex_constants ex_server_usdc 2000000 ''notime'' (1 / 100) None =
     Returned \<lparr>valid = True, signature = Some ''notime'', amount = Some (Fin (3 / 200)),
               token = Some ''USDC'', from_addr = Some ''PayerToken'',
               to_addr = Some ''ata:Rcpt'', timestamp = None, error = None\<rparr>"
  by (simp add: ex_defs vp_defs)

section \<open>The replay check\<close>

text \<open>
  C7. \<open>isSignatureUsed\<close> returns true exactly when the ledger holds a record for the
  signature at depth \<open>confirmed\<close>, false exactly when it holds none, and throws exactly
  when the fetch throws. Nothing else enters its result; in particular no set of consumed
  signatures does. So for a paid signature that was never consumed it answers true, where
  the replay guard of the specification records the signature as new (and only a second
  \<open>markConsumed\<close> answers false): it is not that guard.
\<close>

theorem isSignatureUsed_is_existence:
  "(isSignatureUsed s sig = Returned True \<longleftrightarrow>
      (\<exists>tx. getTransaction (connection s) sig Confirmed = Returned (Some tx))) \<and>
   (isSignatureUsed s sig = Returned False \<longleftrightarrow>
      getTransaction (connection s) sig Confirmed = Returned None) \<and>
   (isSignatureUsed s sig = Thrown x \<longleftrightarrow>
      getTransaction (connection s) sig Confirmed = Thrown x) \<and>
   (getTransaction (connection s) sig Confirmed = Returned (Some tx) \<and> sig \<notin> consumed \<longrightarrow>
      isSignatureUsed s sig = Returned True \<and>
      markConsumed sig consumed = (True, insert sig consumed) \<and>
      fst (markConsumed sig (snd (markConsumed sig consumed))) = False)"
  by (auto simp add: isSignatureUsed_def markConsumed_def split: outcome.splits)

theorem isSignatureUsed_is_existence_witness:
  "isSignatureUsed ex_server_sol ''fresh'' = Returned True \<and>
   markConsumed ''fresh'' {} = (True, {''fresh''}) \<and>
   isSignatureUsed ex_server_usdc ''fresh'' = Returned True \<and>
   isSignatureUsed ex_server_sol ''none'' = Returned False \<and>
   isSignatureUsed ex_server_sol_down ''fresh'' = Thrown ''timeout''"
  using isSignatureUsed_is_existence [of ex_server_sol "''fresh''" "''timeout''"
      "ex_raw (Some 1900) False ''Rcpt'' 10000000" "{}"]
    isSignatureUsed_is_existence [of ex_server_usdc "''fresh''" "''timeout''"
      "ex_raw (Some 1900) False ''Rcpt'' 10000000" "{}"]
    isSignatureUsed_is_existence [of ex_server_sol "''none''" "''timeout''"
      "ex_raw (Some 1900) False ''Rcpt'' 10000000" "{}"]
    isSignatureUsed_is_existence [of ex_server_sol_down "''fresh''" "''timeout''"
      "ex_raw (Some 1900) False ''Rcpt'' 10000000" "{}"]
  by (simp add: ex_defs)

section \<open>The 402 response\<close>

lemma createPaymentRequirements_usdc_initialized:
  assumes "(if recipientTokenAccount s = None then initialize_usdc L s else Returned s) = Returned t"
  shows "createPaymentRequirements_usdc L K s now price rid =
     Returned
       (\<lparr>version = X402_VERSION K,
         paymentOptions =
           [\<lparr>po_id = or_else rid (''payment-'' @ String_of L (Fin (of_int now))),
             po_scheme = ''solana'',
             po_network = network_string (network (config t)),
             po_recipient = recipientAddress (config t),
             po_token = usdcMint t,
             po_amount = String_of L (Fin price),
             po_decimals = USDC_DECIMALS K\<rparr>]\<rparr>, t)"
  using assms by (simp add: createPaymentRequirements_usdc_def Let_def)

lemma create402Response_usdc_throws:
  "recipientTokenAccount s = None \<Longrightarrow> initialize_usdc L s = Thrown x \<Longrightarrow>
     create402Response_usdc L K s now price rid = Thrown x"
  by (simp add: create402Response_usdc_def createPaymentRequirements_usdc_def)

text \<open>
  C8. For every price and resource identifier, \<open>create402Response\<close> of the SOL server
  returns status 402, the two headers \<open>Content-Type: application/json\<close> and
  \<open>WWW-Authenticate: x402 version="<version>"\<close>, and as body the requirements that
  \<open>createPaymentRequirements\<close> returns for the same arguments (at the same clock reading):
  the version and one payment option, whose amount is the text of the price. The USDC
  server does the same once its token account is or can be derived, that is when it is
  initialized or \<open>initialize\<close> succeeds; it returns the initialized server as well.
\<close>

theorem create402Response_wraps_requirements:
  "(\<exists>req opt.
      createPaymentRequirements_sol L K s now price rid = Returned req \<and>
      create402Response_sol L K s now price rid =
        Returned \<lparr>statusCode = 402,
                  headers = [(''Content-Type'', ''application/json''),
                             (''WWW-Authenticate'',
                                ''x402 version='' @ [CHR 0x22] @ X402_VERSION K @ [CHR 0x22])],
                  body = req\<rparr> \<and>
      version req = X402_VERSION K \<and> paymentOptions req = [opt] \<and>
      po_amount opt = String_of L (Fin price)) \<and>
   ((if recipientTokenAccount s' = None then initialize_usdc L s' else Returned s') = Returned t
      \<longrightarrow>
    (\<exists>req opt.
      createPaymentRequirements_usdc L K s' now price rid = Returned (req, t) \<and>
      create402Response_usdc L K s' now price rid =
        Returned (\<lparr>statusCode = 402,
                   headers = [(''Content-Type'', ''application/json''),
                              (''WWW-Authenticate'',
                                 ''x402 version='' @ [CHR 0x22] @ X402_VERSION K @ [CHR 0x22])],
                   body = req\<rparr>, t) \<and>
      version req = X402_VERSION K \<and> paymentOptions req = [opt] \<and>
      po_amount opt = String_of L (Fin price)))"
proof (intro conjI impI)
  show "\<exists>req opt.
      createPaymentRequirements_sol L K s now price rid = Returned req \<and>
      create402Response_sol L K s now price rid =
        Returned \<lparr>statusCode = 402,
                  headers = [(''Content-Type'', ''application/json''),
                             (''WWW-Authenticate'',
                                ''x402 version='' @ [CHR 0x22] @ X402_VERSION K @ [CHR 0x22])],
                  body = req\<rparr> \<and>
      version req = X402_VERSION K \<and> paymentOptions req = [opt] \<and>
      po_amount opt = String_of L (Fin price)"
    by (simp add: createPaymentRequirements_sol_def create402Response_sol_def
        response_headers_def Let_def)
next
  assume "(if recipientTokenAccount s' = None then initialize_usdc L s' else Returned s') = Returned t"
  from createPaymentRequirements_usdc_initialized [OF this, of K now price rid]
  show "\<exists>req opt.
      createPaymentRequirements_usdc L K s' now price rid = Returned (req, t) \<and>
      create402Response_usdc L K s' now price rid =
        Returned (\<lparr>statusCode = 402,
                   headers = [(''Content-Type'', ''application/json''),
                              (''WWW-Authenticate'',
                                 ''x402 version='' @ [CHR 0x22] @ X402_VERSION K @ [CHR 0x22])],
                   body = req\<rparr>, t) \<and>
      version req = X402_VERSION K \<and> paymentOptions req = [opt] \<and>
      po_amount opt = String_of L (Fin price)"
    by (simp add: create402Response_usdc_def response_headers_def)
qed

theorem create402Response_wraps_requirements_witness:
  "initialize_usdc ex_library ex_server_usdc_new = Returned ex_server_usdc \<and>
   (\<exists>req opt.
      create402Response_usdc ex_library ex_constants ex_server_usdc_new 2000000 (1 / 100) (Some ''res'') =
        Returned (\<lparr>statusCode = 402,
                   headers = [(''Content-Type'', ''application/json''),
                              (''WWW-Authenticate'', ''x402 version='' @ [CHR 0x22] @ ''1.0'' @ [CHR 0x22])],
                   body = req\<rparr>, ex_server_usdc) \<and>
      version req = ''1.0'' \<and> paymentOptions req = [opt] \<and> po_amount opt = ''n'')"
proof -
  have init: "initialize_usdc ex_library ex_server_usdc_new = Returned ex_server_usdc"
    by (simp add: initialize_usdc_def ex_defs)
  have none: "recipientTokenAccount ex_server_usdc_new = None"
    by (simp add: ex_defs)
  from create402Response_wraps_requirements [where L = ex_library and K = ex_constants
      and s' = ex_server_usdc_new and t = ex_server_usdc and now = 2000000 and price = "1 / 100"
      and rid = "Some ''res''"] init none
  have "\<exists>req opt.
      createPaymentRequirements_usdc ex_library ex_constants ex_server_usdc_new 2000000 (1 / 100) (Some ''res'') = Returned (req, ex_server_usdc) \<and>
      create402Response_usdc ex_library ex_constants ex_server_usdc_new 2000000 (1 / 100) (Some ''res'') =
        Returned (\<lparr>statusCode = 402,
                   headers = [(''Content-Type'', ''application/json''),
                              (''WWW-Authenticate'',
                                 ''x402 version='' @ [CHR 0x22] @ X402_VERSION ex_constants @ [CHR 0x22])],
                   body = req\<rparr>, ex_server_usdc) \<and>
      version req = X402_VERSION ex_constants \<and> paymentOptions req = [opt] \<and>
      po_amount opt = String_of ex_library (Fin (1 / 100))"
    by simp
  then show ?thesis using init by (auto simp add: ex_constants_def ex_library_def)
qed

section \<open>The USDC server before \<open>initialize\<close>\<close>

lemma constructor_usdc_uninitialized:
  "constructor_usdc L K cfg = Returned s \<Longrightarrow> recipientTokenAccount s = None"
  by (auto simp add: constructor_usdc_def Let_def split: outcome.splits)

lemma usdc_uninitialized_cases:
  assumes "recipientTokenAccount s = None"
  shows "\<exists>msg. verifyPayment_usdc L K s now sig e m = Returned (invalid msg)"
proof -
  have no_match: "Some d \<noteq> recipientTokenAccount s" for d
    by (simp add: assms)
  show ?thesis
  proof (cases "getParsedTransaction (connection s) sig Confirmed")
    case (Thrown x)
    from verifyPayment_usdc_fetch_throws [OF this] show ?thesis by blast
  next
    case (Returned r)
    show ?thesis
    proof (cases r)
      case None
      with Returned usdc_not_found show ?thesis by blast
    next
      case (Some tx)
      with Returned have fetch:
        "getParsedTransaction (connection s) sig Confirmed = Returned (Some tx)" by simp
      consider (a) "meta_err tx" | (b) "\<not> meta_err tx" "stale_usdc now tx m"
        | (c) "\<not> meta_err tx" "\<not> stale_usdc now tx m" "findTokenTransfer tx = None"
        | (d) ti where "\<not> meta_err tx" "\<not> stale_usdc now tx m" "findTokenTransfer tx = Some ti"
        by (cases "findTokenTransfer tx") auto
      then show ?thesis
      proof cases
        case a
        from usdc_failed [OF fetch a] show ?thesis by blast
      next
        case b
        from usdc_stale [OF fetch b] show ?thesis by blast
      next
        case c
        from usdc_no_transfer [OF fetch c] show ?thesis by blast
      next
        case (d ti)
        from usdc_wrong_address [OF fetch d no_match] show ?thesis by blast
      qed
    qed
  qed
qed

text \<open>
  C9. While \<open>recipientTokenAccount\<close> is null, as the constructor leaves it, the USDC
  server's \<open>verifyPayment\<close> never returns a valid verdict. A record that is found,
  successful and fresh and in which a transfer is found is rejected with
  \<open>Payment sent to wrong address\<close>: its destination is compared with \<open>undefined\<close>.
\<close>

theorem uninitialized_never_valid:
  assumes "recipientTokenAccount s = None"
  shows "\<exists>v. verifyPayment_usdc L K s now sig e m = Returned v \<and> \<not> valid v
           \<and> (\<forall>tx ti. getParsedTransaction (connection s) sig Confirmed = Returned (Some tx)
                  \<and> \<not> meta_err tx \<and> \<not> stale_usdc now tx m \<and> findTokenTransfer tx = Some ti
                \<longrightarrow> error v = Some ''Payment sent to wrong address'')"
proof -
  from usdc_uninitialized_cases [OF assms] obtain msg where
    r: "verifyPayment_usdc L K s now sig e m = Returned (invalid msg)" by blast
  have "error (invalid msg) = Some ''Payment sent to wrong address''"
    if "getParsedTransaction (connection s) sig Confirmed = Returned (Some tx)"
      "\<not> meta_err tx" "\<not> stale_usdc now tx m" "findTokenTransfer tx = Some ti" for tx ti
  proof -
    have "Some (t_destination ti) \<noteq> recipientTokenAccount s" by (simp add: assms)
    from usdc_wrong_address [OF that this, of L K e] r show ?thesis
      by (simp add: invalid_shape)
  qed
  with r show ?thesis by (auto simp add: invalid_shape)
qed

theorem uninitialized_never_valid_witness:
  "constructor_usdc ex_library ex_constants ex_config = Returned ex_server_usdc_new \<and>
   recipientTokenAccount ex_server_usdc_new = None \<and>
   (\<exists>v. verifyPayment_usdc ex_library ex_constants ex_server_usdc_new 2000000 ''fresh'' (1 / 100) None
          = Returned v \<and> \<not> valid v \<and> error v = Some ''Payment sent to wrong address'')"
proof -
  have c: "constructor_usdc ex_library ex_constants ex_config = Returned ex_server_usdc_new"
    by (simp add: constructor_usdc_def default_rpc_def ex_defs)
  have n: "recipientTokenAccount ex_server_usdc_new = None"
    by (simp add: ex_defs)
  from uninitialized_never_valid [OF n, of ex_library ex_constants 2000000 "''fresh''" "1 / 100" None]
  obtain v where v: "verifyPayment_usdc ex_library ex_constants ex_server_usdc_new 2000000 ''fresh'' (1 / 100) None = Returned v"
    "\<not> valid v"
    "\<forall>tx ti. getParsedTransaction (connection ex_server_usdc_new) ''fresh'' Confirmed = Returned (Some tx)
                  \<and> \<not> meta_err tx \<and> \<not> stale_usdc 2000000 tx None \<and> findTokenTransfer tx = Some ti
                \<longrightarrow> error v = Some ''Payment sent to wrong address''"
    by blast
  have "getParsedTransaction (connection ex_server_usdc_new) ''fresh'' Confirmed =
          Returned (Some (ex_parsed (Some 1900) False [ex_memo, ex_token_transfer ''ata:Rcpt'' 15000]))
        \<and> \<not> meta_err (ex_parsed (Some 1900) False [ex_memo, ex_token_transfer ''ata:Rcpt'' 15000])
        \<and> \<not> stale_usdc 2000000 (ex_parsed (Some 1900) False [ex_memo, ex_token_transfer ''ata:Rcpt'' 15000]) None
        \<and> findTokenTransfer (ex_parsed (Some 1900) False [ex_memo, ex_token_transfer ''ata:Rcpt'' 15000])
           = Some \<lparr>t_source = ''PayerToken'', t_destination = ''ata:Rcpt'', t_amount = Some 15000\<rparr>"
    by (simp add: ex_defs cond_defs)
  with v(3) have "error v = Some ''Payment sent to wrong address''" by blast
  with c n v(1,2) show ?thesis by blast
qed

section \<open>Records without block time\<close>

lemma not_too_old_invalid:
  "\<not> prefix ''Transaction too old'' msg \<Longrightarrow> \<not> rejected_as_too_old (invalid msg)"
  by (simp add: rejected_as_too_old_def invalid_def)

lemma usdc_no_blocktime_not_stale:
  "blockTime tx = None \<or> blockTime tx = Some 0 \<Longrightarrow> \<not> stale_usdc now tx m"
  by (auto simp add: stale_usdc_def)

lemma usdc_not_rejected_as_too_old:
  assumes fetch: "getParsedTransaction (connection s) sig Confirmed = Returned (Some tx)"
    and fresh: "\<not> stale_usdc now tx m"
  shows "\<exists>v. verifyPayment_usdc L K s now sig e m = Returned v \<and> \<not> rejected_as_too_old v"
proof -
  consider (a) "meta_err tx"
    | (c) "\<not> meta_err tx" "findTokenTransfer tx = None"
    | (d) ti where "\<not> meta_err tx" "findTokenTransfer tx = Some ti"
          "Some (t_destination ti) \<noteq> recipientTokenAccount s"
    | (e) ti where "\<not> meta_err tx" "findTokenTransfer tx = Some ti"
          "Some (t_destination ti) = recipientTokenAccount s"
          "js_lt (ToNumber (t_amount ti)) (Fin (e * 10 ^ USDC_DECIMALS K))"
    | (f) ti where "\<not> meta_err tx" "findTokenTransfer tx = Some ti"
          "Some (t_destination ti) = recipientTokenAccount s"
          "\<not> js_lt (ToNumber (t_amount ti)) (Fin (e * 10 ^ USDC_DECIMALS K))"
    by (cases "findTokenTransfer tx") auto
  then show ?thesis
  proof cases
    case a
    from usdc_failed [OF fetch a, where L = L and K = K and now = now and e = e and m = m]
    show ?thesis by (simp add: not_too_old_invalid)
  next
    case c
    from usdc_no_transfer [OF fetch c(1) fresh c(2), where L = L and K = K and e = e]
    show ?thesis by (simp add: not_too_old_invalid)
  next
    case (d ti)
    from usdc_wrong_address [OF fetch d(1) fresh d(2,3), where L = L and K = K and e = e]
    show ?thesis by (simp add: not_too_old_invalid)
  next
    case (e ti)
    from usdc_insufficient [OF fetch e(1) fresh e(2,3,4), where L = L]
    show ?thesis by (simp add: not_too_old_invalid insufficient_usdc_def)
  next
    case (f ti)
    from usdc_accept [OF fetch f(1) fresh f(2,3,4), where L = L]
    show ?thesis by (simp add: rejected_as_too_old_def)
  qed
qed

text \<open>
  C10. For a record whose block time is null or \<open>0\<close>, the USDC server never answers
  \<open>Transaction too old\<close>, whatever the maximum age. The SOL server reads the block time
  of such a record as \<open>0\<close>, so its age is the clock in whole seconds, and answers
  \<open>Transaction too old\<close> whenever that exceeds the maximum age.
\<close>

theorem missing_block_time:
  "(getParsedTransaction (connection s') sig Confirmed = Returned (Some tx')
      \<and> (blockTime tx' = None \<or> blockTime tx' = Some 0) \<longrightarrow>
      (\<exists>v. verifyPayment_usdc L K s' now sig e m = Returned v \<and> \<not> rejected_as_too_old v)) \<and>
   (getTransaction (connection s) sig Confirmed = Returned (Some tx)
      \<and> (blockTime tx = None \<or> blockTime tx = Some 0)
      \<and> of_int (now div 1000) > maxAge_default m \<longrightarrow>
      age_sol now tx = now div 1000 \<and>
      verifyPayment_sol L s now sig e m =
        Returned (invalid (too_old_sol L (now div 1000) (maxAge_default m))) \<and>
      rejected_as_too_old (invalid (too_old_sol L (now div 1000) (maxAge_default m))))"
proof (intro conjI impI)
  assume "getParsedTransaction (connection s') sig Confirmed = Returned (Some tx')
      \<and> (blockTime tx' = None \<or> blockTime tx' = Some 0)"
  then show "\<exists>v. verifyPayment_usdc L K s' now sig e m = Returned v \<and> \<not> rejected_as_too_old v"
    using usdc_not_rejected_as_too_old usdc_no_blocktime_not_stale by blast
next
  assume a: "getTransaction (connection s) sig Confirmed = Returned (Some tx)
      \<and> (blockTime tx = None \<or> blockTime tx = Some 0)
      \<and> of_int (now div 1000) > maxAge_default m"
  then show age: "age_sol now tx = now div 1000"
    by (auto simp add: age_sol_def)
  from a have "stale_sol now tx m" by (simp add: stale_sol_def age)
  from sol_stale [OF _ this, of s sig L e] a age
  show "verifyPayment_sol L s now sig e m =
        Returned (invalid (too_old_sol L (now div 1000) (maxAge_default m)))"
    by simp
  show "rejected_as_too_old (invalid (too_old_sol L (now div 1000) (maxAge_default m)))"
    by (simp add: rejected_as_too_old_def invalid_def too_old_sol_def)
qed

theorem missing_block_time_witness:
  "(\<exists>v. verifyPayment_usdc ex_library ex_constants ex_server_usdc 2000000 ''notime'' (1 / 100) (Some 0)
          = Returned v \<and> \<not> rejected_as_too_old v) \<and>
   verifyPayment_sol ex_library ex_server_sol 2000000 ''notime'' (1 / 100) None =
     Returned (invalid ''Transaction too old: ns (max ns)'') \<and>
   rejected_as_too_old (invalid ''Transaction too old: ns (max ns)'')"
proof -
  have 1: "\<exists>v. verifyPayment_usdc ex_library ex_constants ex_server_usdc 2000000 ''notime'' (1 / 100) (Some 0)
          = Returned v \<and> \<not> rejected_as_too_old v"
    using missing_block_time [where L = ex_library and K = ex_constants and s' = ex_server_usdc
        and now = 2000000 and sig = "''notime''" and e = "1 / 100" and m = "Some 0"
        and tx' = "ex_parsed None False [ex_token_transfer ''ata:Rcpt'' 15000]"]
    by (simp add: ex_defs)
  have 2: "verifyPayment_sol ex_library ex_server_sol 2000000 ''notime'' (1 / 100) None =
     Returned (invalid ''Transaction too old: ns (max ns)'') \<and>
   rejected_as_too_old (invalid ''Transaction too old: ns (max ns)'')"
    using missing_block_time [where L = ex_library and s = ex_server_sol
        and now = 2000000 and sig = "''notime''" and e = "1 / 100" and m = None
        and tx = "ex_raw None False ''Rcpt'' 10000000"]
    by (simp add: ex_defs maxAge_default_def too_old_sol_def)
  from 1 2 show ?thesis by (intro conjI) auto
qed

end
